theory Spec2Isabelle
  imports Main "HOL-Library.Multiset" "HOL-Library.Char_ord" "HOL-Library.List_Lexorder"
begin

section \<open>Data model of the chat client (src/app.jsx)\<close>

text \<open>
  The client keeps all durable data in a hosted document store. Documents are modelled as
  records, collections as association lists from document id to document (in insertion
  order), and the per-user private \<open>friends\<close> collections as maps keyed by the friend's
  uid, since those documents are written with \<open>setDoc\<close> under a chosen id.
  Strings are character lists; characters are read as code points below 256.
\<close>

type_synonym uid = string
type_synonym docid = string

text \<open>
  A store timestamp: whole seconds and the nanoseconds within the second. The client reads
  only \<open>createdAt.seconds\<close>; the store orders by the full value.
\<close>

record timestamp =
  seconds :: int
  nanoseconds :: nat

definition ts_nanos :: "timestamp \<Rightarrow> int" where
  "ts_nanos t = seconds t * 1000000000 + int (nanoseconds t)"

text \<open>
  \<open>auth.currentUser\<close>: either \<open>null\<close> or a user whose \<open>displayName\<close> may itself be
  \<open>null\<close>. A template literal prints \<open>null\<close> as the four letters.
\<close>

datatype authUser = NoUser | User "string option"

definition show_js :: "string option \<Rightarrow> string" where
  "show_js v = (case v of None \<Rightarrow> ''null'' | Some s \<Rightarrow> s)"

record friendRequest =
  req_senderId :: uid
  req_senderUsername :: "string option"
  req_receiverId :: uid
  req_receiverUsername :: string
  req_status :: string
  req_createdAt :: timestamp

record friendEdge =
  edge_uid :: uid
  edge_username :: "string option"

text \<open>\<open>grp_createdAt = None\<close>: the record has no creation timestamp.\<close>

record channel =
  grp_name :: string
  grp_type :: string
  grp_members :: "uid list"
  grp_ownerId :: uid
  grp_createdAt :: "timestamp option"

text \<open>\<open>msg_type = None\<close>: the stored record has no \<open>type\<close> field.\<close>

record message =
  msg_senderId :: string
  msg_senderUsername :: string
  msg_content :: string
  msg_type :: "string option"
  msg_timestamp :: timestamp

record store =
  friendRequests :: "(docid \<times> friendRequest) list"
  groups :: "(docid \<times> channel) list"
  messages :: "docid \<Rightarrow> (docid \<times> message) list"
  friends :: "uid \<Rightarrow> uid \<rightharpoonup> friendEdge"

text \<open>The transient notice set by \<open>setToastMessage\<close>.\<close>

datatype toastType = Error | Success | Info

record toast =
  toast_message :: string
  toast_type :: toastType

section \<open>The document store's operations\<close>

text \<open>
  Every store call of a handler is awaited and may reject. The backend says, for the
  \<open>k\<close>-th store call of one handler run, whether it rejects and which time the server
  stamps on a \<open>serverTimestamp()\<close> field. A rejected write leaves the store as it was.
\<close>

record backend =
  rejects :: "nat \<Rightarrow> bool"
  server_time :: "nat \<Rightarrow> timestamp"

datatype storeError = Rejected | NotFound

text \<open>
  \<open>addDoc\<close> stores the document under an automatically generated id. The generated ids
  are taken never to collide with an id of the collection: the model picks a string longer
  than every id in use.
\<close>

definition fresh_id :: "docid list \<Rightarrow> docid" where
  "fresh_id ids = replicate (Suc (foldr max (map length ids) 0)) (CHR ''a'')"

definition addDoc :: "backend \<Rightarrow> nat \<Rightarrow> (docid \<times> 'a) list \<Rightarrow> 'a \<Rightarrow>
    storeError + (docid \<times> (docid \<times> 'a) list)" where
  "addDoc be k coll d =
     (if rejects be k then Inl Rejected
      else let i = fresh_id (map fst coll) in Inr (i, coll @ [(i, d)]))"

text \<open>\<open>updateDoc(ref, {status: action})\<close> rejects when the document does not exist.\<close>

definition updateDoc_status :: "backend \<Rightarrow> nat \<Rightarrow> docid \<Rightarrow> string \<Rightarrow>
    (docid \<times> friendRequest) list \<Rightarrow> storeError + (docid \<times> friendRequest) list" where
  "updateDoc_status be k rid action coll =
     (if rejects be k then Inl Rejected
      else if rid \<notin> set (map fst coll) then Inl NotFound
      else Inr (map (\<lambda>(i, r). if i = rid then (i, r\<lparr>req_status := action\<rparr>) else (i, r)) coll))"

text \<open>\<open>setDoc(doc(getUserFriendsCollection(owner), friend), edge)\<close> creates or overwrites.\<close>

definition setDoc_friend :: "backend \<Rightarrow> nat \<Rightarrow> uid \<Rightarrow> uid \<Rightarrow> friendEdge \<Rightarrow>
    (uid \<Rightarrow> uid \<rightharpoonup> friendEdge) \<Rightarrow> storeError + (uid \<Rightarrow> uid \<rightharpoonup> friendEdge)" where
  "setDoc_friend be k owner friend e fr =
     (if rejects be k then Inl Rejected
      else Inr (fr(owner := (fr owner)(friend \<mapsto> e))))"

section \<open>String helpers\<close>

text \<open>
  \<open>String.prototype.trim\<close> removes white space and line terminators from both ends:
  TAB, LF, VT, FF, CR, SP and NBSP among the code points below 256.
\<close>

definition isWhiteSpace :: "char \<Rightarrow> bool" where
  "isWhiteSpace c = (c \<in> set [CHR 0x09, CHR 0x0A, CHR 0x0B, CHR 0x0C, CHR 0x0D, CHR 0x20, CHR 0xA0])"

definition trim :: "string \<Rightarrow> string" where
  "trim s = rev (dropWhile isWhiteSpace (rev (dropWhile isWhiteSpace s)))"

section \<open>ChatArea: sending a text message\<close>

text \<open>
  \<open>handleSendMessage\<close> (lines 639-657). The result is the store, the \<open>messageContent\<close>
  state of the input field and the notices shown, in order. \<open>selectedGroup\<close> is the
  selected channel with its id; the form exists only while a channel is selected.
\<close>

definition handleSendMessage :: "backend \<Rightarrow> uid \<Rightarrow> string \<Rightarrow> (docid \<times> channel) \<Rightarrow>
    string \<Rightarrow> store \<Rightarrow> store \<times> string \<times> toast list" where
  "handleSendMessage be currentUserId currentUsername selectedGroup messageContent s =
     (if trim messageContent = [] \<or> fst selectedGroup = [] then (s, messageContent, [])
      else
        case addDoc be 0 (messages s (fst selectedGroup))
               \<lparr>msg_senderId = currentUserId,
                msg_senderUsername = currentUsername,
                msg_content = trim messageContent,
                msg_type = Some ''text'',
                msg_timestamp = server_time be 0\<rparr> of
          Inl err \<Rightarrow>
            (s, messageContent,
             [\<lparr>toast_message = ''Failed to send message.'', toast_type = Error\<rparr>])
        | Inr (mid, coll) \<Rightarrow>
            (s\<lparr>messages := (messages s)(fst selectedGroup := coll)\<rparr>, [], []))"

section \<open>FriendRequestsView: sending, accepting and declining friend requests\<close>

text \<open>\<open>getDocs(query)\<close> is a store read: it may reject, else it yields the matching documents.\<close>

definition getDocs :: "backend \<Rightarrow> nat \<Rightarrow> 'a list \<Rightarrow> storeError + 'a list" where
  "getDocs be k matching = (if rejects be k then Inl Rejected else Inr matching)"

text \<open>
  The query \<open>where senderId == sender, where receiverId == receiver, where status ==
  'pending'\<close> on the \<open>friendRequests\<close> collection.
\<close>

definition pendingBetween :: "uid \<Rightarrow> uid \<Rightarrow> (docid \<times> friendRequest) list \<Rightarrow>
    (docid \<times> friendRequest) list" where
  "pendingBetween sender receiver coll =
     filter (\<lambda>(i, r). req_senderId r = sender \<and> req_receiverId r = receiver \<and>
                      req_status r = ''pending'') coll"

text \<open>
  \<open>sendFriendRequest\<close> (lines 265-306). Every store call and the read of
  \<open>auth.currentUser.displayName\<close> sit inside one \<open>try\<close>; the \<open>catch\<close> shows the error notice.
\<close>

definition sendFailed :: toast where
  "sendFailed = \<lparr>toast_message = ''Failed to send request.'', toast_type = Error\<rparr>"

definition sendFriendRequest :: "backend \<Rightarrow> authUser \<Rightarrow> uid \<Rightarrow> uid \<Rightarrow> string \<Rightarrow> store \<Rightarrow>
    store \<times> toast list" where
  "sendFriendRequest be auth currentUserId receiverId receiverUsername s =
     (case getDocs be 0 (pendingBetween currentUserId receiverId (friendRequests s)) of
        Inl err \<Rightarrow> (s, [sendFailed])
      | Inr existingSent \<Rightarrow>
          if existingSent \<noteq> [] then
            (s, [\<lparr>toast_message = ''Request already sent to '' @ receiverUsername @ ''.'',
                  toast_type = Info\<rparr>])
          else
            case getDocs be 1 (pendingBetween receiverId currentUserId (friendRequests s)) of
              Inl err \<Rightarrow> (s, [sendFailed])
            | Inr existingReceived \<Rightarrow>
                if existingReceived \<noteq> [] then
                  (s, [\<lparr>toast_message = receiverUsername @
                          '' has already sent you a request. Check '' @ [CHR 0x27] @
                          ''Pending Received Requests'' @ [CHR 0x27] @ ''.'',
                        toast_type = Info\<rparr>])
                else
                  case auth of
                    NoUser \<Rightarrow> (s, [sendFailed])
                  | User displayName \<Rightarrow>
                      case addDoc be 2 (friendRequests s)
                             \<lparr>req_senderId = currentUserId,
                              req_senderUsername = displayName,
                              req_receiverId = receiverId,
                              req_receiverUsername = receiverUsername,
                              req_status = ''pending'',
                              req_createdAt = server_time be 2\<rparr> of
                        Inl err \<Rightarrow> (s, [sendFailed])
                      | Inr (rid, coll) \<Rightarrow>
                          (s\<lparr>friendRequests := coll\<rparr>,
                           [\<lparr>toast_message = ''Request sent to '' @ receiverUsername @ ''!'',
                             toast_type = Success\<rparr>]))"

text \<open>
  \<open>handleRequestAction\<close> (lines 308-349). The store calls are numbered 0 to 4 in program
  order; the first one that throws (a rejection, a missing request document, or
  \<open>auth.currentUser\<close> being \<open>null\<close>) ends the handler in the \<open>catch\<close>, with the earlier
  writes kept. The 'Accepted' notice is set before the channel is created.
\<close>

definition actionFailed :: "string \<Rightarrow> toast" where
  "actionFailed action =
     \<lparr>toast_message = ''Failed to '' @ action @ '' request.'', toast_type = Error\<rparr>"

definition acceptedToast :: "string option \<Rightarrow> toast" where
  "acceptedToast senderUsername =
     \<lparr>toast_message = ''Accepted friend request from '' @ show_js senderUsername @ ''.'',
      toast_type = Success\<rparr>"

definition welcomeMessage :: "string option \<Rightarrow> string option \<Rightarrow> timestamp \<Rightarrow> message" where
  "welcomeMessage displayName senderUsername t =
     \<lparr>msg_senderId = ''SYSTEM'',
      msg_senderUsername = ''System'',
      msg_content = ''DM chat created between '' @ show_js displayName @ '' and '' @
                    show_js senderUsername @ ''. Say hello!'',
      msg_type = None,
      msg_timestamp = t\<rparr>"

definition handleRequestAction :: "backend \<Rightarrow> authUser \<Rightarrow> uid \<Rightarrow> docid \<Rightarrow> string \<Rightarrow> uid \<Rightarrow>
    string option \<Rightarrow> store \<Rightarrow> store \<times> toast list" where
  "handleRequestAction be auth currentUserId requestId action senderId senderUsername s =
     (case updateDoc_status be 0 requestId action (friendRequests s) of
        Inl err \<Rightarrow> (s, [actionFailed action])
      | Inr reqs \<Rightarrow>
          let s1 = s\<lparr>friendRequests := reqs\<rparr> in
          if action = ''accepted'' then
            case setDoc_friend be 1 currentUserId senderId
                   \<lparr>edge_uid = senderId, edge_username = senderUsername\<rparr> (friends s1) of
              Inl err \<Rightarrow> (s1, [actionFailed action])
            | Inr fr1 \<Rightarrow>
                let s2 = s1\<lparr>friends := fr1\<rparr> in
                case auth of
                  NoUser \<Rightarrow> (s2, [actionFailed action])
                | User displayName \<Rightarrow>
                    case setDoc_friend be 2 senderId currentUserId
                           \<lparr>edge_uid = currentUserId, edge_username = displayName\<rparr>
                           (friends s2) of
                      Inl err \<Rightarrow> (s2, [actionFailed action])
                    | Inr fr2 \<Rightarrow>
                        let s3 = s2\<lparr>friends := fr2\<rparr> in
                        case addDoc be 3 (groups s3)
                               \<lparr>grp_name = show_js displayName @ '' & '' @ show_js senderUsername,
                                grp_type = ''dm'',
                                grp_members = [currentUserId, senderId],
                                grp_ownerId = currentUserId,
                                grp_createdAt = Some (server_time be 3)\<rparr> of
                          Inl err \<Rightarrow> (s3, [acceptedToast senderUsername, actionFailed action])
                        | Inr (newGroupId, grps) \<Rightarrow>
                            let s4 = s3\<lparr>groups := grps\<rparr> in
                            case addDoc be 4 (messages s4 newGroupId)
                                   (welcomeMessage displayName senderUsername
                                      (server_time be 4)) of
                              Inl err \<Rightarrow>
                                (s4, [acceptedToast senderUsername, actionFailed action])
                            | Inr (mid, msgs) \<Rightarrow>
                                (s4\<lparr>messages := (messages s4)(newGroupId := msgs)\<rparr>,
                                 [acceptedToast senderUsername])
          else
            (s1, [\<lparr>toast_message = ''Declined request from '' @ show_js senderUsername @ ''.'',
                   toast_type = Info\<rparr>]))"

text \<open>
  The list of received requests shown to the user (lines 235-242): the pending requests
  whose receiver is the current user. Its Accept and Decline buttons (lines 409, 415) call
  the handler with the fields of the displayed request.
\<close>

definition pendingReceivedRequests :: "uid \<Rightarrow> store \<Rightarrow> (docid \<times> friendRequest) list" where
  "pendingReceivedRequests currentUserId s =
     filter (\<lambda>(i, r). req_receiverId r = currentUserId \<and> req_status r = ''pending'')
       (friendRequests s)"

definition onAcceptClick :: "backend \<Rightarrow> authUser \<Rightarrow> uid \<Rightarrow> (docid \<times> friendRequest) \<Rightarrow> store \<Rightarrow>
    store \<times> toast list" where
  "onAcceptClick be auth currentUserId request s =
     handleRequestAction be auth currentUserId (fst request) ''accepted''
       (req_senderId (snd request)) (req_senderUsername (snd request)) s"

definition onDeclineClick :: "backend \<Rightarrow> authUser \<Rightarrow> uid \<Rightarrow> (docid \<times> friendRequest) \<Rightarrow> store \<Rightarrow>
    store \<times> toast list" where
  "onDeclineClick be auth currentUserId request s =
     handleRequestAction be auth currentUserId (fst request) ''declined''
       (req_senderId (snd request)) (req_senderUsername (snd request)) s"

section \<open>Sidebar: creating a group\<close>

text \<open>
  \<open>handleCreateGroup\<close> (lines 772-794). \<open>db\<close> says whether the store handle was
  initialised; an empty \<open>currentUserId\<close> is falsy. The result is the store, the
  \<open>newGroupName\<close> and \<open>isAddingGroup\<close> states and the notices shown.
\<close>

definition handleCreateGroup :: "backend \<Rightarrow> bool \<Rightarrow> uid \<Rightarrow> string \<Rightarrow> bool \<Rightarrow> store \<Rightarrow>
    store \<times> string \<times> bool \<times> toast list" where
  "handleCreateGroup be db currentUserId newGroupName isAddingGroup s =
     (if trim newGroupName = [] then
        (s, newGroupName, isAddingGroup,
         [\<lparr>toast_message = ''Group name cannot be empty.'', toast_type = Error\<rparr>])
      else if \<not> db \<or> currentUserId = [] then (s, newGroupName, isAddingGroup, [])
      else
        case addDoc be 0 (groups s)
               \<lparr>grp_name = trim newGroupName,
                grp_type = ''group'',
                grp_members = [currentUserId],
                grp_ownerId = currentUserId,
                grp_createdAt = Some (server_time be 0)\<rparr> of
          Inl err \<Rightarrow>
            (s, newGroupName, isAddingGroup,
             [\<lparr>toast_message = ''Failed to create group.'', toast_type = Error\<rparr>])
        | Inr (gid, grps) \<Rightarrow>
            (s\<lparr>groups := grps\<rparr>, [], False,
             [\<lparr>toast_message = ''Group '' @ [CHR 0x27] @ trim newGroupName @ [CHR 0x27] @
                                '' created!'',
               toast_type = Success\<rparr>]))"

section \<open>App: the channel list subscription\<close>

text \<open>
  \<open>Array.prototype.sort\<close> with a comparator is a stable sort: an element goes before
  another when the comparator is negative, and elements that compare equal keep their
  order. The model is the stable insertion sort driven by the same comparator.
\<close>

fun insert_by :: "('a \<Rightarrow> 'a \<Rightarrow> int) \<Rightarrow> 'a \<Rightarrow> 'a list \<Rightarrow> 'a list" where
  "insert_by cmp x [] = [x]"
| "insert_by cmp x (y # ys) = (if cmp x y \<le> 0 then x # y # ys else y # insert_by cmp x ys)"

definition array_sort :: "('a \<Rightarrow> 'a \<Rightarrow> int) \<Rightarrow> 'a list \<Rightarrow> 'a list" where
  "array_sort cmp xs = foldr (insert_by cmp) xs []"

text \<open>\<open>a.createdAt?.seconds || 0\<close>: a missing timestamp, and a zero, give \<open>0\<close>.\<close>

definition createdSeconds :: "(docid \<times> channel) \<Rightarrow> int" where
  "createdSeconds a =
     (case grp_createdAt (snd a) of
        None \<Rightarrow> 0
      | Some t \<Rightarrow> if seconds t = 0 then 0 else seconds t)"

definition groupCompare :: "(docid \<times> channel) \<Rightarrow> (docid \<times> channel) \<Rightarrow> int" where
  "groupCompare a b = (let timeA = createdSeconds a; timeB = createdSeconds b in timeB - timeA)"

text \<open>
  The groups effect (lines 1036-1061): the store filters on membership and, the query
  having no \<open>orderBy\<close>, delivers the matching documents in ascending order of document
  id; the snapshot callback sorts what it received and stores it in \<open>groups\<close>.
\<close>

definition groupsQuery :: "uid \<Rightarrow> store \<Rightarrow> (docid \<times> channel) list" where
  "groupsQuery currentUserId s =
     sort_key fst (filter (\<lambda>(i, g). currentUserId \<in> set (grp_members g)) (groups s))"

definition onGroupsSnapshot :: "(docid \<times> channel) list \<Rightarrow> (docid \<times> channel) list" where
  "onGroupsSnapshot fetchedGroups = array_sort groupCompare fetchedGroups"

text \<open>
  The order as the specification words it, for comparison: descending by creation time,
  that is by the whole timestamp, with the key \<open>0\<close> for a record without one.
\<close>

definition spec_createdTime :: "(docid \<times> channel) \<Rightarrow> int" where
  "spec_createdTime a = (case grp_createdAt (snd a) of None \<Rightarrow> 0 | Some t \<Rightarrow> ts_nanos t)"

definition spec_newestFirst :: "(docid \<times> channel) list \<Rightarrow> bool" where
  "spec_newestFirst displayed =
     sorted_wrt (\<lambda>a b. spec_createdTime b \<le> spec_createdTime a) displayed"

section \<open>App: the message subscription\<close>

text \<open>
  The store's \<open>orderBy('timestamp', 'asc')\<close> returns the documents in ascending order of
  the field, documents with equal timestamps in ascending order of document id: a stable
  sort on the timestamp of the documents sorted by id. \<open>limit(n)\<close> keeps the first \<open>n\<close>
  documents of that order.
\<close>

definition orderBy_timestamp_asc :: "(docid \<times> message) list \<Rightarrow> (docid \<times> message) list" where
  "orderBy_timestamp_asc docs =
     sort_key (\<lambda>d. ts_nanos (msg_timestamp (snd d))) (sort_key fst docs)"

definition limit :: "nat \<Rightarrow> 'a list \<Rightarrow> 'a list" where
  "limit n docs = take n docs"

definition messagesQuery :: "(docid \<times> message) list \<Rightarrow> (docid \<times> message) list" where
  "messagesQuery coll = limit 50 (orderBy_timestamp_asc coll)"

text \<open>
  The window as the specification words it, for comparison: the most recent \<open>n\<close>
  messages, in ascending order of timestamp.
\<close>

definition spec_messageWindow :: "nat \<Rightarrow> (docid \<times> message) list \<Rightarrow> (docid \<times> message) list" where
  "spec_messageWindow n coll =
     (let ascending = orderBy_timestamp_asc coll
      in drop (length ascending - n) ascending)"

text \<open>
  The snapshot callback (line 1079) builds
  \<open>{ id: doc.id, type: doc.data().type || 'text', ...doc.data() }\<close>: the default is
  computed first, and the spread of the stored fields then overwrites \<open>type\<close> when the
  stored record has that field.
\<close>

record uiMessage =
  ui_id :: docid
  ui_type :: string
  ui_senderId :: string
  ui_senderUsername :: string
  ui_content :: string
  ui_timestamp :: timestamp

definition toUiMessage :: "(docid \<times> message) \<Rightarrow> uiMessage" where
  "toUiMessage doc =
     (let data = snd doc;
          type0 = (case msg_type data of None \<Rightarrow> ''text''
                   | Some t \<Rightarrow> if t = [] then ''text'' else t)
      in \<lparr>ui_id = fst doc,
          ui_type = (case msg_type data of None \<Rightarrow> type0 | Some t \<Rightarrow> t),
          ui_senderId = msg_senderId data,
          ui_senderUsername = msg_senderUsername data,
          ui_content = msg_content data,
          ui_timestamp = msg_timestamp data\<rparr>)"

definition onMessagesSnapshot :: "(docid \<times> message) list \<Rightarrow> uiMessage list" where
  "onMessagesSnapshot docs = map toUiMessage docs"

text \<open>
  The messages effect (lines 1065-1086): without a store handle, a selected channel or the
  chat view the window is emptied; otherwise it is what the query delivers.
\<close>

definition messagesEffect :: "bool \<Rightarrow> (docid \<times> channel) option \<Rightarrow> string \<Rightarrow> store \<Rightarrow>
    uiMessage list" where
  "messagesEffect db selectedGroup currentView s =
     (case selectedGroup of
        None \<Rightarrow> []
      | Some g \<Rightarrow>
          if \<not> db \<or> currentView \<noteq> ''Chat'' then []
          else onMessagesSnapshot (messagesQuery (messages s (fst g))))"

text \<open>\<open>MessageItem\<close> (lines 580-620): the content is an image for type \<open>gif\<close>, else text.\<close>

datatype rendering = Image | Paragraph

definition renderContent :: "uiMessage \<Rightarrow> rendering" where
  "renderContent msg = (if ui_type msg = ''gif'' then Image else Paragraph)"

definition isSystemMessage :: "uiMessage \<Rightarrow> bool" where
  "isSystemMessage msg = (ui_senderId msg = ''SYSTEM'')"

section \<open>Example data\<close>

definition backend_ok :: backend where
  "backend_ok = \<lparr>rejects = (\<lambda>k. False),
                 server_time = (\<lambda>k. \<lparr>seconds = 1700000000 + int k, nanoseconds = 0\<rparr>)\<rparr>"

definition backend_down :: backend where
  "backend_down = \<lparr>rejects = (\<lambda>k. True),
                   server_time = (\<lambda>k. \<lparr>seconds = 1700000000 + int k, nanoseconds = 0\<rparr>)\<rparr>"

definition empty_store :: store where
  "empty_store = \<lparr>friendRequests = [], groups = [], messages = (\<lambda>g. []),
                  friends = (\<lambda>u. Map.empty)\<rparr>"

definition general_group :: "docid \<times> channel" where
  "general_group = (''g1'', \<lparr>grp_name = ''general'', grp_type = ''group'', grp_members = [''u1''],
                           grp_ownerId = ''u1'', grp_createdAt = None\<rparr>)"

definition alpha_request :: "docid \<times> friendRequest" where
  "alpha_request = (''r1'', \<lparr>req_senderId = ''u1'', req_senderUsername = Some ''Alpha'',
                            req_receiverId = ''u2'', req_receiverUsername = ''Beta'',
                            req_status = ''pending'',
                            req_createdAt = \<lparr>seconds = 1699999999, nanoseconds = 0\<rparr>\<rparr>)"

definition pending_store :: store where
  "pending_store = empty_store\<lparr>friendRequests := [alpha_request]\<rparr>"

definition log51 :: "(docid \<times> message) list" where
  "log51 = map (\<lambda>n. (replicate n (CHR ''m''),
                      \<lparr>msg_senderId = ''u1'', msg_senderUsername = ''Alpha'',
                       msg_content = ''hi'', msg_type = Some ''text'',
                       msg_timestamp = \<lparr>seconds = int n, nanoseconds = 0\<rparr>\<rparr>)) [1..<52]"

text \<open>Two channels of user \<open>u1\<close> created within the same second, 800 ns apart.\<close>

definition group_early :: "docid \<times> channel" where
  "group_early = (''g1'', \<lparr>grp_name = ''early'', grp_type = ''group'', grp_members = [''u1''],
                          grp_ownerId = ''u1'',
                          grp_createdAt = Some \<lparr>seconds = 5, nanoseconds = 100\<rparr>\<rparr>)"

definition group_late :: "docid \<times> channel" where
  "group_late = (''g2'', \<lparr>grp_name = ''late'', grp_type = ''group'', grp_members = [''u1''],
                         grp_ownerId = ''u1'',
                         grp_createdAt = Some \<lparr>seconds = 5, nanoseconds = 900\<rparr>\<rparr>)"

definition same_second_store :: store where
  "same_second_store = empty_store\<lparr>groups := [group_early, group_late]\<rparr>"

section \<open>The store after the first four writes of an acceptance\<close>

text \<open>
  The request marked accepted, the two friend documents written one after the other, and
  the new channel appended to \<open>groups\<close>; used to state what the handler has done when its
  store calls 0 to 3 succeed.
\<close>

definition accepted_base :: "backend \<Rightarrow> string option \<Rightarrow> uid \<Rightarrow> docid \<Rightarrow> uid \<Rightarrow> string option \<Rightarrow>
    store \<Rightarrow> store" where
  "accepted_base be displayName currentUserId requestId senderId senderUsername s =
     s\<lparr>friendRequests :=
          map (\<lambda>(i, r). if i = requestId then (i, r\<lparr>req_status := ''accepted''\<rparr>) else (i, r))
            (friendRequests s),
        friends :=
          (let fr1 = (friends s)(currentUserId := (friends s currentUserId)
                       (senderId \<mapsto> \<lparr>edge_uid = senderId, edge_username = senderUsername\<rparr>))
           in fr1(senderId := (fr1 senderId)
                    (currentUserId \<mapsto> \<lparr>edge_uid = currentUserId, edge_username = displayName\<rparr>))),
        groups := groups s @
          [(fresh_id (map fst (groups s)),
            \<lparr>grp_name = show_js displayName @ '' & '' @ show_js senderUsername,
             grp_type = ''dm'',
             grp_members = [currentUserId, senderId],
             grp_ownerId = currentUserId,
             grp_createdAt = Some (server_time be 3)\<rparr>)]\<rparr>"

section \<open>Helper lemmas\<close>

subsection \<open>Strings and fresh ids\<close>

lemma all_dropWhile_iff: "(\<forall>x \<in> set (dropWhile P xs). P x) \<longleftrightarrow> (\<forall>x \<in> set xs. P x)"
  by (induction xs) auto

lemma trim_empty_iff: "trim s = [] \<longleftrightarrow> (\<forall>c \<in> set s. isWhiteSpace c)"
  by (simp add: trim_def dropWhile_eq_Nil_conv all_dropWhile_iff)

lemma trim_hello: "trim ''hello'' = ''hello''"
  by (simp add: trim_def isWhiteSpace_def)

lemma fresh_id_longer: "i \<in> set ids \<Longrightarrow> length i < length (fresh_id ids)"
  by (induction ids) (auto simp: fresh_id_def)

lemma fresh_id_fresh: "fresh_id ids \<notin> set ids"
  using fresh_id_longer by blast

lemma fresh_id_nonempty: "fresh_id ids \<noteq> []"
  by (simp add: fresh_id_def)

subsection \<open>Store calls that succeed or reject\<close>

lemma updateDoc_status_ok:
  "\<not> rejects be k \<Longrightarrow> rid \<in> fst ` set coll \<Longrightarrow>
   updateDoc_status be k rid action coll =
     Inr (map (\<lambda>(i, r). if i = rid then (i, r\<lparr>req_status := action\<rparr>) else (i, r)) coll)"
  by (simp add: updateDoc_status_def)

lemma setDoc_friend_ok:
  "\<not> rejects be k \<Longrightarrow>
   setDoc_friend be k owner friend e fr = Inr (fr(owner := (fr owner)(friend \<mapsto> e)))"
  by (simp add: setDoc_friend_def)

lemma addDoc_ok:
  "\<not> rejects be k \<Longrightarrow>
   addDoc be k coll d = Inr (fresh_id (map fst coll), coll @ [(fresh_id (map fst coll), d)])"
  by (simp add: addDoc_def Let_def)

lemma addDoc_rejected: "rejects be k \<Longrightarrow> addDoc be k coll d = Inl Rejected"
  by (simp add: addDoc_def)

subsection \<open>Accepting a request\<close>

lemma pendingReceived_in_store:
  "req \<in> set (pendingReceivedRequests cu s) \<Longrightarrow>
   req \<in> set (friendRequests s) \<and> req_receiverId (snd req) = cu \<and>
   req_status (snd req) = ''pending''"
  by (auto simp: pendingReceivedRequests_def)

lemma handleRequestAction_accepted_ok:
  assumes "requestId \<in> fst ` set (friendRequests s)"
    and "\<not> rejects be 0" and "\<not> rejects be 1" and "\<not> rejects be 2" and "\<not> rejects be 3"
    and "\<not> rejects be 4"
  shows "handleRequestAction be (User displayName) currentUserId requestId ''accepted''
           senderId senderUsername s =
     ((accepted_base be displayName currentUserId requestId senderId senderUsername s)
        \<lparr>messages := (messages s)(fresh_id (map fst (groups s)) :=
            messages s (fresh_id (map fst (groups s))) @
              [(fresh_id (map fst (messages s (fresh_id (map fst (groups s))))),
                welcomeMessage displayName senderUsername (server_time be 4))])\<rparr>,
      [acceptedToast senderUsername])"
  using assms
  by (simp add: handleRequestAction_def updateDoc_status_ok setDoc_friend_ok addDoc_ok
      accepted_base_def Let_def)

lemma handleRequestAction_accepted_no_welcome:
  assumes "requestId \<in> fst ` set (friendRequests s)"
    and "\<not> rejects be 0" and "\<not> rejects be 1" and "\<not> rejects be 2" and "\<not> rejects be 3"
    and "rejects be 4"
  shows "handleRequestAction be (User displayName) currentUserId requestId ''accepted''
           senderId senderUsername s =
     (accepted_base be displayName currentUserId requestId senderId senderUsername s,
      [acceptedToast senderUsername, actionFailed ''accepted''])"
  using assms
  by (simp add: handleRequestAction_def updateDoc_status_ok setDoc_friend_ok addDoc_ok
      addDoc_rejected accepted_base_def Let_def)

lemma accepted_base_fields:
  "friendRequests (accepted_base be dn cu rid sid sun s) =
     map (\<lambda>(i, r). if i = rid then (i, r\<lparr>req_status := ''accepted''\<rparr>) else (i, r))
       (friendRequests s)"
  "groups (accepted_base be dn cu rid sid sun s) = groups s @
     [(fresh_id (map fst (groups s)),
       \<lparr>grp_name = show_js dn @ '' & '' @ show_js sun, grp_type = ''dm'',
        grp_members = [cu, sid], grp_ownerId = cu,
        grp_createdAt = Some (server_time be 3)\<rparr>)]"
  "messages (accepted_base be dn cu rid sid sun s) = messages s"
  by (simp_all add: accepted_base_def)

lemma accepted_base_friends:
  assumes "sid \<noteq> cu"
  shows "friends (accepted_base be dn cu rid sid sun s) cu sid =
           Some \<lparr>edge_uid = sid, edge_username = sun\<rparr>"
    and "friends (accepted_base be dn cu rid sid sun s) sid cu =
           Some \<lparr>edge_uid = cu, edge_username = dn\<rparr>"
    and "(a, b) \<noteq> (cu, sid) \<Longrightarrow> (a, b) \<noteq> (sid, cu) \<Longrightarrow>
         friends (accepted_base be dn cu rid sid sun s) a b = friends s a b"
  using assms by (auto simp: accepted_base_def Let_def)

lemma status_update_mem:
  "req \<in> set coll \<Longrightarrow>
   (fst req, (snd req)\<lparr>req_status := action\<rparr>) \<in>
     set (map (\<lambda>(i, r). if i = fst req then (i, r\<lparr>req_status := action\<rparr>) else (i, r)) coll)"
proof -
  assume "req \<in> set coll"
  moreover have "(\<lambda>(i, r). if i = fst req then (i, r\<lparr>req_status := action\<rparr>) else (i, r)) req
            = (fst req, (snd req)\<lparr>req_status := action\<rparr>)"
    by (cases req) simp
  ultimately show ?thesis
    by (metis (no_types, lifting) image_eqI list.set_map)
qed

subsection \<open>Sending a request\<close>

lemma send_unchanged_if_pending:
  "pendingBetween A B (friendRequests s) \<noteq> [] \<or> pendingBetween B A (friendRequests s) \<noteq> [] \<Longrightarrow>
   fst (sendFriendRequest be auth A B bname s) = s"
  by (simp add: sendFriendRequest_def getDocs_def split: authUser.splits)

lemma send_already_sent:
  "pendingBetween A B (friendRequests s) \<noteq> [] \<Longrightarrow> \<not> rejects be 0 \<Longrightarrow>
   snd (sendFriendRequest be auth A B bname s) =
     [\<lparr>toast_message = ''Request already sent to '' @ bname @ ''.'', toast_type = Info\<rparr>]"
  by (simp add: sendFriendRequest_def getDocs_def)

lemma send_already_received:
  "pendingBetween A B (friendRequests s) = [] \<Longrightarrow> pendingBetween B A (friendRequests s) \<noteq> [] \<Longrightarrow>
   \<not> rejects be 0 \<Longrightarrow> \<not> rejects be 1 \<Longrightarrow>
   snd (sendFriendRequest be auth A B bname s) =
     [\<lparr>toast_message = bname @ '' has already sent you a request. Check '' @ [CHR 0x27] @
                        ''Pending Received Requests'' @ [CHR 0x27] @ ''.'',
       toast_type = Info\<rparr>]"
  by (simp add: sendFriendRequest_def getDocs_def)

lemma send_inserts_one:
  "pendingBetween A B (friendRequests s) = [] \<Longrightarrow> pendingBetween B A (friendRequests s) = [] \<Longrightarrow>
   \<not> rejects be 0 \<Longrightarrow> \<not> rejects be 1 \<Longrightarrow> \<not> rejects be 2 \<Longrightarrow>
   sendFriendRequest be (User dn) A B bname s =
     (s\<lparr>friendRequests := friendRequests s @
          [(fresh_id (map fst (friendRequests s)),
            \<lparr>req_senderId = A, req_senderUsername = dn, req_receiverId = B,
             req_receiverUsername = bname, req_status = ''pending'',
             req_createdAt = server_time be 2\<rparr>)]\<rparr>,
      [\<lparr>toast_message = ''Request sent to '' @ bname @ ''!'', toast_type = Success\<rparr>])"
  by (simp add: sendFriendRequest_def getDocs_def addDoc_ok)

lemma send_writes_at_most_one:
  "fst (sendFriendRequest be auth A B bname s) = s \<or>
   (\<exists>dn. auth = User dn \<and>
      fst (sendFriendRequest be auth A B bname s) =
        s\<lparr>friendRequests := friendRequests s @
          [(fresh_id (map fst (friendRequests s)),
            \<lparr>req_senderId = A, req_senderUsername = dn, req_receiverId = B,
             req_receiverUsername = bname, req_status = ''pending'',
             req_createdAt = server_time be 2\<rparr>)]\<rparr>)"
  by (cases auth; cases "rejects be 0"; cases "rejects be 1"; cases "rejects be 2";
      simp add: sendFriendRequest_def getDocs_def addDoc_ok addDoc_rejected)

subsection \<open>The comparator sort\<close>

lemma mset_insert_by: "mset (insert_by cmp x xs) = add_mset x (mset xs)"
  by (induction xs) auto

lemma mset_array_sort: "mset (array_sort cmp xs) = mset xs"
  by (induction xs) (auto simp: array_sort_def mset_insert_by)

lemma set_insert_by: "set (insert_by cmp x xs) = insert x (set xs)"
  by (induction xs) auto

lemma sorted_insert_by_group:
  "sorted_wrt (\<lambda>a b. createdSeconds b \<le> createdSeconds a) xs \<Longrightarrow>
   sorted_wrt (\<lambda>a b. createdSeconds b \<le> createdSeconds a) (insert_by groupCompare x xs)"
  by (induction xs) (auto simp: set_insert_by groupCompare_def)

lemma sorted_array_sort_group:
  "sorted_wrt (\<lambda>a b. createdSeconds b \<le> createdSeconds a) (array_sort groupCompare xs)"
  by (induction xs) (auto simp: array_sort_def sorted_insert_by_group)

lemma insert_by_group_insort:
  "insert_by groupCompare x xs = insort_key (\<lambda>a. - createdSeconds a) x xs"
  by (induction xs) (auto simp: groupCompare_def)

lemma array_sort_group_sort_key:
  "array_sort groupCompare xs = sort_key (\<lambda>a. - createdSeconds a) xs"
  by (induction xs) (auto simp: array_sort_def insert_by_group_insort)

text \<open>
  What the snapshot callback does guarantee: the displayed list holds exactly the delivered
  records, in descending order of the whole seconds of their creation time (0 for a record
  without a timestamp), records of the same second in the order of delivery.
\<close>

lemma onGroupsSnapshot_sorted_by_seconds:
  "mset (onGroupsSnapshot fetchedGroups) = mset fetchedGroups \<and>
   sorted_wrt (\<lambda>a b. createdSeconds b \<le> createdSeconds a) (onGroupsSnapshot fetchedGroups) \<and>
   onGroupsSnapshot fetchedGroups = sort_key (\<lambda>a. - createdSeconds a) fetchedGroups \<and>
   createdSeconds (i, g\<lparr>grp_createdAt := None\<rparr>) = 0 \<and>
   createdSeconds (i, g\<lparr>grp_createdAt := Some t\<rparr>) = seconds t"
proof -
  have "mset (onGroupsSnapshot fetchedGroups) = mset fetchedGroups"
    by (simp add: onGroupsSnapshot_def mset_array_sort)
  moreover have "sorted_wrt (\<lambda>a b. createdSeconds b \<le> createdSeconds a)
      (onGroupsSnapshot fetchedGroups)"
    by (simp add: onGroupsSnapshot_def sorted_array_sort_group)
  moreover have "onGroupsSnapshot fetchedGroups =
      sort_key (\<lambda>a. - createdSeconds a) fetchedGroups"
    by (simp add: onGroupsSnapshot_def array_sort_group_sort_key)
  moreover have "createdSeconds (i, g\<lparr>grp_createdAt := None\<rparr>) = 0"
    and "createdSeconds (i, g\<lparr>grp_createdAt := Some t\<rparr>) = seconds t"
    by (simp_all add: createdSeconds_def)
  ultimately show ?thesis by blast
qed

subsection \<open>The message window\<close>

lemma messagesQuery_ascending:
  "sorted (map (\<lambda>d. ts_nanos (msg_timestamp (snd d))) (messagesQuery coll))"
  by (simp add: messagesQuery_def limit_def orderBy_timestamp_asc_def sorted_wrt_take
      flip: take_map)

lemma messagesQuery_capped: "length (messagesQuery coll) \<le> 50"
  by (simp add: messagesQuery_def limit_def)

lemma messagesQuery_subset: "set (messagesQuery coll) \<subseteq> set coll"
  using set_take_subset [of 50 "orderBy_timestamp_asc coll"]
  by (simp add: messagesQuery_def limit_def orderBy_timestamp_asc_def)

text \<open>
  The query's window and the most recent 50 agree up to 50 messages; beyond that the
  query's window never holds a message that is strictly newer than all others.
\<close>

lemma messagesQuery_short:
  "length coll \<le> 50 \<Longrightarrow> messagesQuery coll = spec_messageWindow 50 coll"
  by (simp add: messagesQuery_def limit_def spec_messageWindow_def orderBy_timestamp_asc_def)

lemma messagesQuery_misses_newest:
  assumes long: "50 < length coll"
    and dist: "distinct coll"
    and mem: "d \<in> set coll"
    and newest: "\<forall>e \<in> set coll. e \<noteq> d \<longrightarrow>
                   ts_nanos (msg_timestamp (snd e)) < ts_nanos (msg_timestamp (snd d))"
  shows "d \<notin> set (messagesQuery coll)"
proof
  define k where "k = (\<lambda>e :: docid \<times> message. ts_nanos (msg_timestamp (snd e)))"
  define xs where "xs = sort_key k (sort_key fst coll)"
  have len: "length xs = length coll" by (simp add: xs_def)
  have dxs: "distinct xs" using dist by (simp add: xs_def)
  have sxs: "sorted (map k xs)" by (simp add: xs_def)
  have setxs: "set xs = set coll" by (simp add: xs_def)
  assume "d \<in> set (messagesQuery coll)"
  then have "d \<in> set (take 50 xs)"
    by (simp add: messagesQuery_def limit_def orderBy_timestamp_asc_def xs_def k_def)
  then obtain i where i: "i < 50" "i < length xs" "xs ! i = d"
    by (auto simp: in_set_conv_nth)
  let ?j = "length xs - 1"
  have j: "?j < length xs" "i < ?j" using long len i by auto
  have "k (xs ! i) \<le> k (xs ! ?j)"
    using sxs j sorted_nth_mono [of "map k xs" i ?j] by simp
  moreover have "xs ! ?j \<in> set coll" using j setxs nth_mem by blast
  moreover have "xs ! ?j \<noteq> d" using dxs i j nth_eq_iff_index_eq by (metis nat_neq_iff)
  ultimately show False using newest i by (auto simp: k_def)
qed

section \<open>Verified properties\<close>

subsection \<open>Accepting and declining a friend request\<close>

text \<open>
  C1. When the receiver accepts a request shown in its list of pending received requests,
  and the store calls for the request, the two friend documents and the channel succeed
  (the user being signed in and the two participants distinct): the request's status
  becomes \<open>accepted\<close>; the receiver's private friends collection holds an edge naming the
  sender and the sender's holds an edge naming the receiver; no other friend document
  changes; and \<open>groups\<close> gains exactly one new document, under an id not used before, of
  type \<open>dm\<close> with members exactly the receiver and the sender.
\<close>

theorem accept_creates_edges_and_dm:
  assumes "req \<in> set (pendingReceivedRequests currentUserId s)"
    and "req_senderId (snd req) \<noteq> req_receiverId (snd req)"
    and "auth = User displayName"
    and "\<not> rejects be 0" and "\<not> rejects be 1" and "\<not> rejects be 2" and "\<not> rejects be 3"
  shows "let s' = fst (onAcceptClick be auth currentUserId req s);
             sender = req_senderId (snd req);
             receiver = req_receiverId (snd req);
             gid = fresh_id (map fst (groups s))
         in friendRequests s' =
              map (\<lambda>(i, r). if i = fst req then (i, r\<lparr>req_status := ''accepted''\<rparr>) else (i, r))
                (friendRequests s) \<and>
            (fst req, (snd req)\<lparr>req_status := ''accepted''\<rparr>) \<in> set (friendRequests s') \<and>
            friends s' receiver sender =
              Some \<lparr>edge_uid = sender, edge_username = req_senderUsername (snd req)\<rparr> \<and>
            friends s' sender receiver =
              Some \<lparr>edge_uid = receiver, edge_username = displayName\<rparr> \<and>
            (\<forall>a b. (a, b) \<noteq> (receiver, sender) \<and> (a, b) \<noteq> (sender, receiver) \<longrightarrow>
               friends s' a b = friends s a b) \<and>
            gid \<notin> fst ` set (groups s) \<and>
            groups s' = groups s @
              [(gid, \<lparr>grp_name = show_js displayName @ '' & '' @
                                 show_js (req_senderUsername (snd req)),
                      grp_type = ''dm'',
                      grp_members = [receiver, sender],
                      grp_ownerId = receiver,
                      grp_createdAt = Some (server_time be 3)\<rparr>)]"
proof -
  define base where "base = accepted_base be displayName currentUserId (fst req)
      (req_senderId (snd req)) (req_senderUsername (snd req)) s"
  from assms(1) have in_store: "req \<in> set (friendRequests s)"
    and recv: "req_receiverId (snd req) = currentUserId"
    using pendingReceived_in_store by blast+
  from in_store have ex: "fst req \<in> fst ` set (friendRequests s)" by force
  have fresh: "fresh_id (map fst (groups s)) \<notin> fst ` set (groups s)"
    using fresh_id_fresh [of "map fst (groups s)"] by simp
  have res0: "friendRequests (fst (onAcceptClick be auth currentUserId req s)) = friendRequests base
      \<and> friends (fst (onAcceptClick be auth currentUserId req s)) = friends base
      \<and> groups (fst (onAcceptClick be auth currentUserId req s)) = groups base"
  proof (cases "rejects be 4")
    case True
    then show ?thesis
      by (simp add: onAcceptClick_def assms(3) base_def
          handleRequestAction_accepted_no_welcome [OF ex assms(4-7)])
  next
    case False
    then show ?thesis
      by (simp add: onAcceptClick_def assms(3) base_def
          handleRequestAction_accepted_ok [OF ex assms(4-7)])
  qed
  note res = conjunct1 [OF res0] conjunct1 [OF conjunct2 [OF res0]]
    conjunct2 [OF conjunct2 [OF res0]]
  have neq: "req_senderId (snd req) \<noteq> currentUserId"
    using assms(2) recv by simp
  have frame: "\<forall>a b. (a, b) \<noteq> (currentUserId, req_senderId (snd req)) \<and>
      (a, b) \<noteq> (req_senderId (snd req), currentUserId) \<longrightarrow> friends base a b = friends s a b"
    unfolding base_def using accepted_base_friends(3) [OF neq] by blast
  show ?thesis
    unfolding Let_def res recv
    using fresh status_update_mem [OF in_store, of "''accepted''"] frame
    by (simp add: base_def accepted_base_fields accepted_base_friends(1,2) [OF neq])
qed


theorem accept_creates_edges_and_dm_witness:
  "alpha_request \<in> set (pendingReceivedRequests ''u2'' pending_store) \<and>
   req_senderId (snd alpha_request) \<noteq> req_receiverId (snd alpha_request) \<and>
   \<not> rejects backend_ok 0 \<and> \<not> rejects backend_ok 1 \<and> \<not> rejects backend_ok 2 \<and>
   \<not> rejects backend_ok 3 \<and>
   friendRequests
     (fst (onAcceptClick backend_ok (User (Some ''Beta'')) ''u2'' alpha_request pending_store)) =
     [(''r1'', (snd alpha_request)\<lparr>req_status := ''accepted''\<rparr>)] \<and>
   friends
     (fst (onAcceptClick backend_ok (User (Some ''Beta'')) ''u2'' alpha_request pending_store))
     ''u2'' ''u1'' = Some \<lparr>edge_uid = ''u1'', edge_username = Some ''Alpha''\<rparr> \<and>
   friends
     (fst (onAcceptClick backend_ok (User (Some ''Beta'')) ''u2'' alpha_request pending_store))
     ''u1'' ''u2'' = Some \<lparr>edge_uid = ''u2'', edge_username = Some ''Beta''\<rparr> \<and>
   groups
     (fst (onAcceptClick backend_ok (User (Some ''Beta'')) ''u2'' alpha_request pending_store)) =
     [(''a'', \<lparr>grp_name = ''Beta & Alpha'', grp_type = ''dm'', grp_members = [''u2'', ''u1''],
              grp_ownerId = ''u2'',
              grp_createdAt = Some \<lparr>seconds = 1700000003, nanoseconds = 0\<rparr>\<rparr>)]"
  using accept_creates_edges_and_dm
          [of alpha_request "''u2''" pending_store "User (Some ''Beta'')" "Some ''Beta''"
              backend_ok]
  by (simp add: pendingReceivedRequests_def pending_store_def alpha_request_def
      empty_store_def backend_ok_def fresh_id_def show_js_def Let_def)

text \<open>
  C3, as the code has it. Claimed: the welcome message of the new channel has the type
  field \<open>system\<close>. The handler writes the welcome message without any \<open>type\<close> field; it
  marks it by \<open>senderId = 'SYSTEM'\<close>. At the example request the types stored in the new
  channel are \<open>[None]\<close>, so no message of it has type \<open>system\<close>.
\<close>

theorem accept_welcome_has_no_type:
  "map (msg_type \<circ> snd)
     (messages
        (fst (onAcceptClick backend_ok (User (Some ''Beta'')) ''u2'' alpha_request pending_store))
        (fresh_id (map fst (groups pending_store)))) = [None] \<and>
   Some ''system'' \<notin> set (map (msg_type \<circ> snd)
     (messages
        (fst (onAcceptClick backend_ok (User (Some ''Beta'')) ''u2'' alpha_request pending_store))
        (fresh_id (map fst (groups pending_store)))))"
proof -
  have ex: "fst alpha_request \<in> fst ` set (friendRequests pending_store)"
    by (simp add: pending_store_def)
  have ok: "\<not> rejects backend_ok k" for k
    by (simp add: backend_ok_def)
  have empty: "messages pending_store g = []" for g
    by (simp add: pending_store_def empty_store_def)
  show ?thesis
    by (simp add: onAcceptClick_def handleRequestAction_accepted_ok [OF ex ok ok ok ok ok]
        accepted_base_fields empty welcomeMessage_def)
qed

text \<open>
  C3, amended. When every store call of the acceptance succeeds, the handler appends
  exactly one message to the log of the channel it has just created and leaves every other
  log alone; that log being empty before, the channel contains exactly one message: the
  welcome message, with \<open>senderId = 'SYSTEM'\<close>, \<open>senderUsername = 'System'\<close> and no stored
  \<open>type\<close> field. The subscription delivers it with type \<open>text\<close>, and the message item
  recognises it as a system message by its sender.
\<close>

theorem accept_welcome_message:
  assumes "req \<in> set (pendingReceivedRequests currentUserId s)"
    and "auth = User displayName"
    and "\<not> rejects be 0" and "\<not> rejects be 1" and "\<not> rejects be 2" and "\<not> rejects be 3"
    and "\<not> rejects be 4"
    and "messages s (fresh_id (map fst (groups s))) = []"
  shows "let s' = fst (onAcceptClick be auth currentUserId req s);
             gid = fresh_id (map fst (groups s));
             welcome = welcomeMessage displayName (req_senderUsername (snd req)) (server_time be 4)
         in map snd (messages s' gid) = [welcome] \<and>
            (\<forall>g. g \<noteq> gid \<longrightarrow> messages s' g = messages s g) \<and>
            msg_senderId welcome = ''SYSTEM'' \<and>
            msg_senderUsername welcome = ''System'' \<and>
            msg_type welcome = None \<and>
            map ui_type (onMessagesSnapshot (messagesQuery (messages s' gid))) = [''text''] \<and>
            map isSystemMessage (onMessagesSnapshot (messagesQuery (messages s' gid))) = [True]"
proof -
  from assms(1) have "req \<in> set (friendRequests s)"
    using pendingReceived_in_store by blast
  then have ex: "fst req \<in> fst ` set (friendRequests s)" by force
  have q: "messagesQuery [d] = [d]" for d :: "docid \<times> message"
    by (simp add: messagesQuery_def limit_def orderBy_timestamp_asc_def)
  show ?thesis
    by (simp add: onAcceptClick_def assms(2,8) Let_def
        handleRequestAction_accepted_ok [OF ex assms(3-7)] accepted_base_fields q
        onMessagesSnapshot_def toUiMessage_def isSystemMessage_def welcomeMessage_def)
qed

theorem accept_welcome_message_witness:
  "alpha_request \<in> set (pendingReceivedRequests ''u2'' pending_store) \<and>
   messages pending_store (fresh_id (map fst (groups pending_store))) = [] \<and>
   map snd
     (messages
        (fst (onAcceptClick backend_ok (User (Some ''Beta'')) ''u2'' alpha_request pending_store))
        ''a'') =
     [\<lparr>msg_senderId = ''SYSTEM'', msg_senderUsername = ''System'',
       msg_content = ''DM chat created between Beta and Alpha. Say hello!'',
       msg_type = None,
       msg_timestamp = \<lparr>seconds = 1700000004, nanoseconds = 0\<rparr>\<rparr>]"
  using accept_welcome_message
          [of alpha_request "''u2''" pending_store "User (Some ''Beta'')" "Some ''Beta''"
              backend_ok]
  by (simp add: pendingReceivedRequests_def pending_store_def alpha_request_def
      empty_store_def backend_ok_def fresh_id_def show_js_def welcomeMessage_def Let_def)

text \<open>
  C5. Declining a request shown in the list of pending received requests leaves the friends
  collections, the channels and every message log as they were, whatever the backend does;
  the requests collection is unchanged when the store rejects the update, and otherwise
  differs only in the status field of the declined request, which is \<open>declined\<close>.
\<close>

theorem decline_changes_only_status:
  assumes "req \<in> set (pendingReceivedRequests currentUserId s)"
  shows "friends (fst (onDeclineClick be auth currentUserId req s)) = friends s \<and>
         groups (fst (onDeclineClick be auth currentUserId req s)) = groups s \<and>
         messages (fst (onDeclineClick be auth currentUserId req s)) = messages s \<and>
         friendRequests (fst (onDeclineClick be auth currentUserId req s)) =
           (if rejects be 0 then friendRequests s
            else map (\<lambda>(i, r). if i = fst req then (i, r\<lparr>req_status := ''declined''\<rparr>)
                                else (i, r)) (friendRequests s))"
proof -
  from assms have "fst req \<in> fst ` set (friendRequests s)"
    using pendingReceived_in_store by blast
  then show ?thesis
    by (simp add: onDeclineClick_def handleRequestAction_def updateDoc_status_def Let_def)
qed

theorem decline_changes_only_status_witness:
  "alpha_request \<in> set (pendingReceivedRequests ''u2'' pending_store) \<and>
   friendRequests
     (fst (onDeclineClick backend_ok (User (Some ''Beta'')) ''u2'' alpha_request pending_store)) =
     [(''r1'', (snd alpha_request)\<lparr>req_status := ''declined''\<rparr>)] \<and>
   groups
     (fst (onDeclineClick backend_ok (User (Some ''Beta'')) ''u2'' alpha_request pending_store)) = [] \<and>
   friends
     (fst (onDeclineClick backend_ok (User (Some ''Beta'')) ''u2'' alpha_request pending_store)) =
     (\<lambda>u. Map.empty)"
  using decline_changes_only_status
          [of alpha_request "''u2''" pending_store backend_ok "User (Some ''Beta'')"]
  by (simp add: pendingReceivedRequests_def pending_store_def alpha_request_def
      empty_store_def backend_ok_def)


subsection \<open>Sending a friend request\<close>

text \<open>
  C4. Sending a request from \<open>A\<close> to \<open>B\<close>: when a pending request exists in either
  direction the store is left unchanged, and (the queries being answered) the notice is
  informational and names the existing state: "Request already sent to B." for a request
  already sent, the "has already sent you a request" notice for one received. The store
  changes only when no pending request exists in either direction, and then by exactly one
  new request document with status \<open>pending\<close> from \<open>A\<close> to \<open>B\<close>, which is what a send
  does when its three store calls succeed.
\<close>

theorem sendFriendRequest_pending_guard:
  "(pendingBetween A B (friendRequests s) \<noteq> [] \<or> pendingBetween B A (friendRequests s) \<noteq> []
      \<longrightarrow> fst (sendFriendRequest be auth A B bname s) = s) \<and>
   (pendingBetween A B (friendRequests s) \<noteq> [] \<and> \<not> rejects be 0 \<longrightarrow>
      snd (sendFriendRequest be auth A B bname s) =
        [\<lparr>toast_message = ''Request already sent to '' @ bname @ ''.'', toast_type = Info\<rparr>]) \<and>
   (pendingBetween A B (friendRequests s) = [] \<and> pendingBetween B A (friendRequests s) \<noteq> [] \<and>
    \<not> rejects be 0 \<and> \<not> rejects be 1 \<longrightarrow>
      snd (sendFriendRequest be auth A B bname s) =
        [\<lparr>toast_message = bname @ '' has already sent you a request. Check '' @ [CHR 0x27] @
                           ''Pending Received Requests'' @ [CHR 0x27] @ ''.'',
          toast_type = Info\<rparr>]) \<and>
   (pendingBetween A B (friendRequests s) = [] \<and> pendingBetween B A (friendRequests s) = [] \<and>
    \<not> rejects be 0 \<and> \<not> rejects be 1 \<and> \<not> rejects be 2 \<and> auth = User dn \<longrightarrow>
      sendFriendRequest be auth A B bname s =
        (s\<lparr>friendRequests := friendRequests s @
             [(fresh_id (map fst (friendRequests s)),
               \<lparr>req_senderId = A, req_senderUsername = dn, req_receiverId = B,
                req_receiverUsername = bname, req_status = ''pending'',
                req_createdAt = server_time be 2\<rparr>)]\<rparr>,
         [\<lparr>toast_message = ''Request sent to '' @ bname @ ''!'', toast_type = Success\<rparr>])) \<and>
   (fst (sendFriendRequest be auth A B bname s) = s \<or>
    (\<exists>dn'. auth = User dn' \<and>
       fst (sendFriendRequest be auth A B bname s) =
         s\<lparr>friendRequests := friendRequests s @
           [(fresh_id (map fst (friendRequests s)),
             \<lparr>req_senderId = A, req_senderUsername = dn', req_receiverId = B,
              req_receiverUsername = bname, req_status = ''pending'',
              req_createdAt = server_time be 2\<rparr>)]\<rparr>)) \<and>
   fresh_id (map fst (friendRequests s)) \<notin> fst ` set (friendRequests s)"
proof -
  have fresh: "fresh_id (map fst (friendRequests s)) \<notin> fst ` set (friendRequests s)"
    using fresh_id_fresh [of "map fst (friendRequests s)"] by simp
  show ?thesis
    using send_unchanged_if_pending [of A B s be auth bname]
      send_already_sent [of A B s be auth bname]
      send_already_received [of A B s be auth bname]
      send_inserts_one [of A B s be dn bname]
      send_writes_at_most_one [of be auth A B bname s] fresh
    by blast
qed

theorem sendFriendRequest_pending_guard_witness:
  "sendFriendRequest backend_ok (User (Some ''Alpha'')) ''u1'' ''u2'' ''Beta'' empty_store =
     (empty_store\<lparr>friendRequests :=
        [(''a'', \<lparr>req_senderId = ''u1'', req_senderUsername = Some ''Alpha'',
                 req_receiverId = ''u2'', req_receiverUsername = ''Beta'',
                 req_status = ''pending'',
                 req_createdAt = \<lparr>seconds = 1700000002, nanoseconds = 0\<rparr>\<rparr>)]\<rparr>,
      [\<lparr>toast_message = ''Request sent to Beta!'', toast_type = Success\<rparr>]) \<and>
   pendingBetween ''u1'' ''u2'' (friendRequests pending_store) \<noteq> [] \<and>
   fst (sendFriendRequest backend_ok (User (Some ''Alpha'')) ''u1'' ''u2'' ''Beta'' pending_store)
     = pending_store \<and>
   snd (sendFriendRequest backend_ok (User (Some ''Alpha'')) ''u1'' ''u2'' ''Beta'' pending_store)
     = [\<lparr>toast_message = ''Request already sent to Beta.'', toast_type = Info\<rparr>]"
  using sendFriendRequest_pending_guard
          [of "''u1''" "''u2''" empty_store backend_ok "User (Some ''Alpha'')" "''Beta''"
              "Some ''Alpha''"]
        sendFriendRequest_pending_guard
          [of "''u1''" "''u2''" pending_store backend_ok "User (Some ''Alpha'')" "''Beta''"
              "Some ''Alpha''"]
  by (simp add: pendingBetween_def pending_store_def alpha_request_def empty_store_def
      backend_ok_def fresh_id_def)

subsection \<open>Sending a text message\<close>

text \<open>
  C8. A text-message send whose composed content is empty or consists of white space only
  is a no-op: the store is unchanged whatever the backend would have done, the input field
  keeps its content and no notice is shown.
\<close>

theorem handleSendMessage_blank_noop:
  assumes "\<forall>c \<in> set messageContent. isWhiteSpace c"
  shows "handleSendMessage be currentUserId currentUsername selectedGroup messageContent s
           = (s, messageContent, [])"
  using assms by (simp add: handleSendMessage_def trim_empty_iff)

theorem handleSendMessage_blank_noop_witness:
  "list_all isWhiteSpace ''  '' \<and>
   handleSendMessage backend_ok ''u1'' ''Alpha'' general_group ''  '' empty_store
     = (empty_store, ''  '', [])"
  using handleSendMessage_blank_noop
          [of "''  ''" backend_ok "''u1''" "''Alpha''" general_group empty_store]
  by (simp add: isWhiteSpace_def)

text \<open>
  C9. A text-message send that reaches the store (content not blank, a channel id present)
  and is rejected there shows the notice "Failed to send message.", leaves the store as it
  was and keeps the composed content in the input field; when the write succeeds, one
  message of type \<open>text\<close> with the trimmed content is appended to the channel's log, the
  input field is cleared and no notice is shown.
\<close>

theorem handleSendMessage_store_failure:
  assumes "trim messageContent \<noteq> []" and "fst selectedGroup \<noteq> []"
  shows "handleSendMessage be currentUserId currentUsername selectedGroup messageContent s =
     (if rejects be 0 then
        (s, messageContent,
         [\<lparr>toast_message = ''Failed to send message.'', toast_type = Error\<rparr>])
      else
        (s\<lparr>messages := (messages s)(fst selectedGroup :=
              messages s (fst selectedGroup) @
                [(fresh_id (map fst (messages s (fst selectedGroup))),
                  \<lparr>msg_senderId = currentUserId, msg_senderUsername = currentUsername,
                   msg_content = trim messageContent, msg_type = Some ''text'',
                   msg_timestamp = server_time be 0\<rparr>)])\<rparr>,
         [], []))"
  using assms by (simp add: handleSendMessage_def addDoc_def Let_def)

theorem handleSendMessage_store_failure_witness:
  "trim ''hello'' \<noteq> [] \<and> fst general_group \<noteq> [] \<and>
   handleSendMessage backend_down ''u1'' ''Alpha'' general_group ''hello'' empty_store =
     (empty_store, ''hello'',
      [\<lparr>toast_message = ''Failed to send message.'', toast_type = Error\<rparr>]) \<and>
   fst (snd (handleSendMessage backend_ok ''u1'' ''Alpha'' general_group ''hello'' empty_store))
     = []"
  using handleSendMessage_store_failure
          [of "''hello''" general_group backend_down "''u1''" "''Alpha''" empty_store]
        handleSendMessage_store_failure
          [of "''hello''" general_group backend_ok "''u1''" "''Alpha''" empty_store]
  by (simp add: trim_hello general_group_def backend_down_def backend_ok_def)

subsection \<open>Creating a group\<close>

text \<open>
  C7. A group-creation attempt whose name is empty or consists of white space only is
  rejected with the notice "Group name cannot be empty.", whatever the backend: the store
  and the form state are unchanged. With any other name (the store handle and the user id
  being present) a successful write appends exactly one channel, under an id not used
  before, with the trimmed name, type \<open>group\<close>, members exactly the creator and the
  creator as owner; a rejected write, a missing store handle or a missing user id leave
  the store unchanged.
\<close>

theorem handleCreateGroup_validation:
  "((\<forall>c \<in> set newGroupName. isWhiteSpace c) \<longrightarrow>
      handleCreateGroup be db currentUserId newGroupName isAddingGroup s =
        (s, newGroupName, isAddingGroup,
         [\<lparr>toast_message = ''Group name cannot be empty.'', toast_type = Error\<rparr>])) \<and>
   ((\<exists>c \<in> set newGroupName. \<not> isWhiteSpace c) \<and> db \<and> currentUserId \<noteq> [] \<and> \<not> rejects be 0
      \<longrightarrow>
      fst (handleCreateGroup be db currentUserId newGroupName isAddingGroup s) =
        s\<lparr>groups := groups s @
             [(fresh_id (map fst (groups s)),
               \<lparr>grp_name = trim newGroupName, grp_type = ''group'',
                grp_members = [currentUserId], grp_ownerId = currentUserId,
                grp_createdAt = Some (server_time be 0)\<rparr>)]\<rparr> \<and>
      fresh_id (map fst (groups s)) \<notin> fst ` set (groups s)) \<and>
   ((\<exists>c \<in> set newGroupName. \<not> isWhiteSpace c) \<and> (\<not> db \<or> currentUserId = [] \<or> rejects be 0)
      \<longrightarrow> fst (handleCreateGroup be db currentUserId newGroupName isAddingGroup s) = s)"
proof -
  have fresh: "fresh_id (map fst (groups s)) \<notin> fst ` set (groups s)"
    using fresh_id_fresh [of "map fst (groups s)"] by simp
  have blank: "(\<forall>c \<in> set newGroupName. isWhiteSpace c) \<longleftrightarrow> trim newGroupName = []"
    by (simp add: trim_empty_iff)
  have nonblank: "(\<exists>c \<in> set newGroupName. \<not> isWhiteSpace c) \<longleftrightarrow> trim newGroupName \<noteq> []"
    by (simp add: trim_empty_iff)
  show ?thesis
    unfolding blank nonblank
    using fresh by (simp add: handleCreateGroup_def addDoc_def Let_def)
qed

theorem handleCreateGroup_validation_witness:
  "list_all isWhiteSpace ''   '' \<and>
   handleCreateGroup backend_ok True ''u1'' ''   '' True empty_store =
     (empty_store, ''   '', True,
      [\<lparr>toast_message = ''Group name cannot be empty.'', toast_type = Error\<rparr>]) \<and>
   (\<exists>c \<in> set ''hello''. \<not> isWhiteSpace c) \<and>
   groups (fst (handleCreateGroup backend_ok True ''u1'' ''hello'' True empty_store)) =
     [(''a'', \<lparr>grp_name = ''hello'', grp_type = ''group'', grp_members = [''u1''],
              grp_ownerId = ''u1'',
              grp_createdAt = Some \<lparr>seconds = 1700000000, nanoseconds = 0\<rparr>\<rparr>)]"
  using handleCreateGroup_validation [of "''   ''" backend_ok True "''u1''" True empty_store]
        handleCreateGroup_validation [of "''hello''" backend_ok True "''u1''" True empty_store]
  by (simp add: isWhiteSpace_def trim_hello empty_store_def backend_ok_def fresh_id_def)

subsection \<open>The channel list\<close>

text \<open>
  C6, what the code does. Claimed: the displayed channel list is the delivered set sorted
  descending by creation time. The comparator reads only the whole seconds of
  \<open>createdAt\<close>, so it returns 0 for two channels created within the same second and the
  stable sort keeps them as delivered. For the channels created at 5 s + 100 ns and at
  5 s + 900 ns, delivered in that order, the displayed list shows the older channel first:
  it is not in descending order of creation time, which would show the later one first.
\<close>

theorem groups_same_second_keeps_older_first:
  "groupsQuery ''u1'' same_second_store = [group_early, group_late] \<and>
   groupCompare group_early group_late = 0 \<and>
   onGroupsSnapshot (groupsQuery ''u1'' same_second_store) = [group_early, group_late] \<and>
   spec_createdTime group_early < spec_createdTime group_late \<and>
   \<not> spec_newestFirst (onGroupsSnapshot (groupsQuery ''u1'' same_second_store)) \<and>
   spec_newestFirst [group_late, group_early]"
  by code_simp

subsection \<open>The message window\<close>

text \<open>
  C2, what the code does. Claimed: the window holds the most recent 50 messages of the
  channel. The query orders ascending and keeps the first 50 documents of that order, so
  for a channel with 51 messages, stamped at seconds 1 to 51, the window holds the
  messages of seconds 1 to 50: the most recent message is missing and the oldest is kept,
  whereas the most recent 50 are the messages of seconds 2 to 51.
\<close>

theorem messages_window_keeps_oldest:
  "map (\<lambda>m. seconds (ui_timestamp m))
     (messagesEffect True (Some general_group) ''Chat'' (empty_store\<lparr>messages := (\<lambda>g. log51)\<rparr>))
     = map int [1..<51] \<and>
   map (\<lambda>m. seconds (ui_timestamp m))
     (messagesEffect True (Some general_group) ''Chat'' (empty_store\<lparr>messages := (\<lambda>g. log51)\<rparr>))
     \<noteq> map int [2..<52] \<and>
   map (\<lambda>m. seconds (ui_timestamp m)) (onMessagesSnapshot (spec_messageWindow 50 log51))
     = map int [2..<52]"
  by code_simp

theorem messages_window_keeps_oldest_witness:
  "length (messagesEffect True (Some general_group) ''Chat''
             (empty_store\<lparr>messages := (\<lambda>g. log51)\<rparr>)) = 50"
proof -
  have "length (map (\<lambda>m. seconds (ui_timestamp m))
          (messagesEffect True (Some general_group) ''Chat''
             (empty_store\<lparr>messages := (\<lambda>g. log51)\<rparr>))) = length (map int [1..<51])"
    using messages_window_keeps_oldest by simp
  then show ?thesis by simp
qed

text \<open>
  C10. The subscription delivers one message per stored document, each with a type: the
  stored type when the record has one, and \<open>text\<close> when it has none. A stored message
  without a type is therefore rendered as text, whoever its sender is.
\<close>

theorem delivered_type_defaults_to_text:
  "map ui_type (onMessagesSnapshot docs) =
     map (\<lambda>d. case msg_type (snd d) of None \<Rightarrow> ''text'' | Some t \<Rightarrow> t) docs \<and>
   (msg_type (snd d) = None \<longrightarrow>
      ui_type (toUiMessage d) = ''text'' \<and> renderContent (toUiMessage d) = Paragraph)"
  by (simp add: onMessagesSnapshot_def toUiMessage_def renderContent_def Let_def
      split: option.splits)

theorem delivered_type_defaults_to_text_witness:
  "msg_type (snd (''m1'', welcomeMessage (Some ''Beta'') (Some ''Alpha'')
      \<lparr>seconds = 1700000004, nanoseconds = 0\<rparr>)) = None \<and>
   ui_type (toUiMessage (''m1'', welcomeMessage (Some ''Beta'') (Some ''Alpha'')
      \<lparr>seconds = 1700000004, nanoseconds = 0\<rparr>)) = ''text'' \<and>
   renderContent (toUiMessage (''m1'', welcomeMessage (Some ''Beta'') (Some ''Alpha'')
      \<lparr>seconds = 1700000004, nanoseconds = 0\<rparr>)) = Paragraph"
  using delivered_type_defaults_to_text
          [of "[]" "(''m1'', welcomeMessage (Some ''Beta'') (Some ''Alpha'')
              \<lparr>seconds = 1700000004, nanoseconds = 0\<rparr>)"]
  by (simp add: welcomeMessage_def)

end
